theory Spec2Isabelle
  imports Complex_Main "HOL-Library.Word"
begin

section \<open>JavaScript values\<close>

text \<open>
  The values that \<^verbatim>\<open>JSON.parse\<close> and \<^verbatim>\<open>res.json()\<close> hand to the script, together
  with \<^verbatim>\<open>undefined\<close>, which a property read of a missing field yields. JSON numbers are
  finite doubles, hence rationals. An object is the list of its (distinct) keys and values.
\<close>

datatype jsval =
    Undefined
  | Null
  | Bool bool
  | Num rat
  | Str string
  | Arr "jsval list"
  | Obj "(string \<times> jsval) list"

text \<open>JavaScript's ToBoolean: what \<^verbatim>\<open>if (v)\<close>, \<^verbatim>\<open>!v\<close>, \<^verbatim>\<open>a || b\<close> and \<^verbatim>\<open>a && b\<close> test.\<close>

fun truthy :: "jsval \<Rightarrow> bool" where
  "truthy Undefined = False"
| "truthy Null = False"
| "truthy (Bool b) = b"
| "truthy (Num n) = (n \<noteq> 0)"
| "truthy (Str s) = (s \<noteq> [])"
| "truthy (Arr xs) = True"
| "truthy (Obj kvs) = True"

definition js_or :: "jsval \<Rightarrow> jsval \<Rightarrow> jsval" where
  "js_or a b = (if truthy a then a else b)"

text \<open>
  The property read \<^verbatim>\<open>v.k\<close> for the field names the scripts use (\<^verbatim>\<open>error\<close>,
  \<^verbatim>\<open>stage\<close>, \<^verbatim>\<open>detail\<close>, \<^verbatim>\<open>llm_text\<close>, \<^verbatim>\<open>audio_url\<close>, \<^verbatim>\<open>transcript\<close>,
  \<^verbatim>\<open>fallback\<close>, \<^verbatim>\<open>type\<close>, \<^verbatim>\<open>end_of_turn\<close>) on a value that is neither null nor
  undefined: on an object it is the field or \<^verbatim>\<open>undefined\<close>, on a boolean, number,
  string or array it is \<^verbatim>\<open>undefined\<close>. On null and undefined the read throws a
  TypeError; every read of the model is guarded by \<open>nullish\<close> or \<open>truthy\<close>, as every
  read of the scripts that does not throw is.
\<close>

definition nullish :: "jsval \<Rightarrow> bool" where
  "nullish v = (v = Null \<or> v = Undefined)"

fun js_get :: "jsval \<Rightarrow> string \<Rightarrow> jsval" where
  "js_get (Obj kvs) k = (case map_of kvs k of None \<Rightarrow> Undefined | Some v \<Rightarrow> v)"
| "js_get v k = Undefined"

section \<open>Numbers as text\<close>

text \<open>\<^verbatim>\<open>Date.now().toString()\<close> and \<^verbatim>\<open>${res.status}\<close>: an integer in decimal.\<close>

definition digit_char :: "nat \<Rightarrow> char" where
  "digit_char d = ''0123456789'' ! d"

fun string_of_nat :: "nat \<Rightarrow> string" where
  "string_of_nat n =
     (if n < 10 then [digit_char n]
      else string_of_nat (n div 10) @ [digit_char (n mod 10)])"

declare string_of_nat.simps [simp del]

definition string_of_int :: "int \<Rightarrow> string" where
  "string_of_int i = (if i < 0 then CHR ''-'' # string_of_nat (nat (- i)) else string_of_nat (nat i))"

section \<open>Session handling (script.js, ensureSessionId)\<close>

text \<open>
  \<^verbatim>\<open>window.location.search\<close> is read through \<^verbatim>\<open>URLSearchParams\<close> and written back with
  \<^verbatim>\<open>history.replaceState\<close>; the navigational context is kept here as the parsed list of
  name/value pairs (serialising the list and parsing it again gives the same list).
  \<^verbatim>\<open>get\<close> returns the first value of a name, or null; \<^verbatim>\<open>set\<close> overwrites the first pair
  of that name and removes the others, or appends a new pair.
\<close>

type_synonym search_params = "(string \<times> string) list"

definition usp_get :: "search_params \<Rightarrow> string \<Rightarrow> string option" where
  "usp_get ps k = map_of ps k"

fun usp_set :: "string \<Rightarrow> string \<Rightarrow> search_params \<Rightarrow> search_params" where
  "usp_set k v [] = [(k, v)]"
| "usp_set k v ((k', v') # ps) =
     (if k' = k then (k, v) # filter (\<lambda>p. fst p \<noteq> k) ps
      else (k', v') # usp_set k v ps)"

text \<open>
  The part of the page that \<^verbatim>\<open>ensureSessionId\<close> touches: the query parameters and the
  text of the element \<^verbatim>\<open>sessionIdText\<close> (\<open>None\<close> when the page has no such element).
\<close>

record nav =
  search :: search_params
  sessionIdText :: "string option"

text \<open>
  \<^verbatim>\<open>!id\<close> holds for null and for the empty string. The first argument is the clock,
  \<^verbatim>\<open>Date.now()\<close>, read only when a key is synthesised.
\<close>

definition ensureSessionId :: "int \<Rightarrow> nav \<Rightarrow> string \<times> nav" where
  "ensureSessionId now n =
     (let (id, ps) =
            (case usp_get (search n) ''session_id'' of
               None \<Rightarrow> (string_of_int now, usp_set ''session_id'' (string_of_int now) (search n))
             | Some v \<Rightarrow>
                 if v = [] then (string_of_int now, usp_set ''session_id'' (string_of_int now) (search n))
                 else (v, search n))
      in (id, \<lparr>search = ps,
               sessionIdText = (case sessionIdText n of None \<Rightarrow> None | Some _ \<Rightarrow> Some id)\<rparr>))"

section \<open>Text constants outside ASCII\<close>

text \<open>The scripts' status texts contain an ellipsis and a dash; they are kept as UTF-8 bytes.\<close>

definition ellipsis :: string where
  "ellipsis = [CHR 0xE2, CHR 0x80, CHR 0xA6]"

definition em_dash :: string where
  "em_dash = [CHR 0xE2, CHR 0x80, CHR 0x94]"

definition mic_emoji :: string where
  "mic_emoji = [CHR 0xF0, CHR 0x9F, CHR 0x8E, CHR 0x99, CHR 0xEF, CHR 0xB8, CHR 0x8F]"

definition warning_emoji :: string where
  "warning_emoji = [CHR 0xE2, CHR 0x9A, CHR 0xA0, CHR 0xEF, CHR 0xB8, CHR 0x8F]"

section \<open>Audio fragments, form data, responses\<close>

type_synonym byte = "8 word"

record blob =
  bytes :: "byte list"
  mime :: string

definition blob_size :: "blob \<Rightarrow> nat" where
  "blob_size b = length (bytes b)"

text \<open>\<^verbatim>\<open>new Blob(parts, { type })\<close>: the parts' bytes, one after the other.\<close>

definition Blob :: "blob list \<Rightarrow> string \<Rightarrow> blob" where
  "Blob parts ty = \<lparr>bytes = concat (map bytes parts), mime = ty\<rparr>"

datatype form_value = FileField blob string | TextField string

type_synonym form_data = "(string \<times> form_value) list"

definition fd_append :: "string \<Rightarrow> form_value \<Rightarrow> form_data \<Rightarrow> form_data" where
  "fd_append name v fd = fd @ [(name, v)]"

text \<open>
  What \<^verbatim>\<open>fetch\<close> and \<^verbatim>\<open>res.json()\<close> give: the request rejects (no response), or a
  response arrives with a status, a status text and a body; \<open>res_body\<close> is the parsed body,
  \<open>None\<close> when the body is not JSON (\<^verbatim>\<open>res.json()\<close> rejects).
\<close>

record http_response =
  res_status :: nat
  res_statusText :: string
  res_body :: "jsval option"

definition ok :: "http_response \<Rightarrow> bool" where
  "ok r = (200 \<le> res_status r \<and> res_status r \<le> 299)"

datatype fetch_outcome = NetworkError string | Http http_response

datatype js_error = Error jsval | TypeError | SyntaxError | Rejected string

section \<open>The page of script.js\<close>

text \<open>
  The elements the script looks up without a guard (\<^verbatim>\<open>statusText\<close>, \<^verbatim>\<open>recordBtn\<close>,
  \<^verbatim>\<open>chatWindow\<close>, \<^verbatim>\<open>aiAudio\<close>, \<^verbatim>\<open>toast\<close>, \<^verbatim>\<open>turnBox\<close>, \<^verbatim>\<open>turnLog\<close>) are taken to
  exist, as in the page that loads the script. The two toggles are read with \<^verbatim>\<open>?.\<close>, so
  they may be missing (\<open>None\<close>). \<^verbatim>\<open>localStorage\<close> maps a key to its stored string.
\<close>

record config =
  conciseToggle :: "bool option"
  webToggle :: "bool option"
  localStorage :: "string \<rightharpoonup> string"

text \<open>
  A \<^verbatim>\<open>MediaRecorder\<close> is \<open>Recording\<close> from \<^verbatim>\<open>start()\<close> to \<^verbatim>\<open>stop()\<close>; after
  \<^verbatim>\<open>stop()\<close> it is inactive with its \<^verbatim>\<open>stop\<close> event still to be dispatched
  (\<open>Stopping\<close>), and \<open>Inactive\<close> once \<^verbatim>\<open>onstop\<close> has run.
\<close>

datatype rstate = Recording | Stopping | Inactive

datatype ws_state = Connecting | Open | Closed

text \<open>
  A call of \<^verbatim>\<open>aiAudio.play()\<close> whose promise has not settled. \<open>auto_listen\<close> tells whether
  the code suspended at it goes on to assign \<^verbatim>\<open>aiAudio.onended\<close> (line 95, the reply of a
  successful turn) or ends there (line 102, the \<^verbatim>\<open>catch\<close> block). \<open>aborted\<close> tells whether
  \<^verbatim>\<open>aiAudio.src\<close> has been assigned since the call: the element then loads anew and the
  promise can only reject.
\<close>

datatype play_call = Play (auto_listen: bool) (aborted: bool)

text \<open>
  The script's variables and the parts of the page it writes. \<open>recorders\<close> holds every
  \<^verbatim>\<open>MediaRecorder\<close> created so far; the variable \<^verbatim>\<open>mediaRecorder\<close> refers to one of them
  by position. \<open>pendingStarts\<close> counts the calls of \<^verbatim>\<open>startRecording\<close> suspended at
  \<^verbatim>\<open>await getUserMedia\<close>; \<open>inflight\<close> holds the requests whose \<^verbatim>\<open>fetch\<close> has not
  settled; \<open>pendingPlays\<close> holds the calls of \<^verbatim>\<open>play()\<close> that have not settled.
  \<open>streams\<close> counts the streams that \<^verbatim>\<open>getUserMedia\<close> has handed out: the script never
  stops a track of any of them, so none is released by the script. \<open>chat\<close> lists the calls
  of \<^verbatim>\<open>addMessage\<close> (text, side). \<open>onended\<close> tells whether \<^verbatim>\<open>aiAudio.onended\<close> has
  been assigned the auto-listen handler.
\<close>

record app =
  sessionId :: string
  cfg :: config
  recorders :: "rstate list"
  mediaRecorder :: "nat option"
  chunks :: "blob list"
  isRecording :: bool
  pendingStarts :: nat
  streams :: nat
  inflight :: "(string \<times> form_data) list"
  pendingPlays :: "play_call list"
  chat :: "(jsval \<times> string) list"
  statusText :: string
  toast :: string
  ariaPressed :: bool
  audioSrc :: jsval
  audioPlaying :: bool
  onended :: bool
  domLoaded :: bool
  sessionText :: "string option"
  turnSocket :: "ws_state option"
  connections :: nat
  turnBoxHidden :: bool
  turnLog :: "jsval list"

definition fallback_mp3 :: string where
  "fallback_mp3 = ''/static/fallback.mp3''"

definition trouble_text :: string where
  "trouble_text = ''I'' @ [CHR 0x27] @ ''m having trouble connecting right now. Please try again.''"

definition showToast :: "string \<Rightarrow> app \<Rightarrow> app" where
  "showToast msg s = s\<lparr>toast := msg\<rparr>"

definition addMessage :: "jsval \<Rightarrow> string \<Rightarrow> app \<Rightarrow> app" where
  "addMessage text side s = s\<lparr>chat := chat s @ [(text, side)]\<rparr>"

subsection \<open>Recording\<close>

text \<open>
  \<^verbatim>\<open>startRecording\<close> runs in two parts. The call itself asks for the microphone and
  suspends. When the request is granted (a stream is handed out) the rest of the \<^verbatim>\<open>try\<close>
  block runs: a new recorder, \<^verbatim>\<open>chunks = []\<close>, \<^verbatim>\<open>start()\<close>, \<^verbatim>\<open>isRecording = true\<close>.
  The \<^verbatim>\<open>catch\<close> block shows a toast; it is reached when the request is refused, when
  the \<^verbatim>\<open>MediaRecorder\<close> constructor throws (nothing has been assigned yet), and when
  \<^verbatim>\<open>start()\<close> throws (the new recorder is assigned and inactive, the buffer is reset).
\<close>

definition startRecording :: "app \<Rightarrow> app" where
  "startRecording s = s\<lparr>pendingStarts := pendingStarts s + 1\<rparr>"

definition startRecording_granted :: "app \<Rightarrow> app" where
  "startRecording_granted s =
     showToast ''Recording started''
       (s\<lparr>pendingStarts := pendingStarts s - 1,
          streams := streams s + 1,
          recorders := recorders s @ [Recording],
          mediaRecorder := Some (length (recorders s)),
          chunks := [],
          isRecording := True,
          ariaPressed := True,
          statusText := ''Listening'' @ ellipsis @ '' tap to stop''\<rparr>)"

definition startRecording_catch :: "string \<Rightarrow> app \<Rightarrow> app" where
  "startRecording_catch msg s = showToast (''Mic error: '' @ msg) s"

definition startRecording_denied :: "string \<Rightarrow> app \<Rightarrow> app" where
  "startRecording_denied msg s =
     startRecording_catch msg (s\<lparr>pendingStarts := pendingStarts s - 1\<rparr>)"

definition startRecording_recorder_threw :: "string \<Rightarrow> app \<Rightarrow> app" where
  "startRecording_recorder_threw msg s =
     startRecording_catch msg
       (s\<lparr>pendingStarts := pendingStarts s - 1, streams := streams s + 1\<rparr>)"

definition startRecording_start_threw :: "string \<Rightarrow> app \<Rightarrow> app" where
  "startRecording_start_threw msg s =
     startRecording_catch msg
       (s\<lparr>pendingStarts := pendingStarts s - 1,
          streams := streams s + 1,
          recorders := recorders s @ [Inactive],
          mediaRecorder := Some (length (recorders s)),
          chunks := []\<rparr>)"

text \<open>\<^verbatim>\<open>mediaRecorder.ondataavailable\<close>: \<open>None\<close> is an event without data.\<close>

definition ondataavailable :: "blob option \<Rightarrow> app \<Rightarrow> app" where
  "ondataavailable d s =
     (case d of
        None \<Rightarrow> s
      | Some b \<Rightarrow> if blob_size b > 0 then s\<lparr>chunks := chunks s @ [b]\<rparr> else s)"

text \<open>
  \<^verbatim>\<open>stopRecording\<close>. \<^verbatim>\<open>stop()\<close> on a recorder that is not recording does nothing; the
  lines after it run all the same.
\<close>

definition stopRecording :: "app \<Rightarrow> app" where
  "stopRecording s =
     (case mediaRecorder s of
        None \<Rightarrow> s
      | Some i \<Rightarrow>
          if isRecording s then
            showToast ''Recording stopped''
              (s\<lparr>recorders :=
                   (if i < length (recorders s) \<and> recorders s ! i = Recording
                    then (recorders s)[i := Stopping] else recorders s),
                 isRecording := False,
                 ariaPressed := False,
                 statusText := ''Thinking'' @ ellipsis\<rparr>)
          else s)"

definition recordBtn_click :: "app \<Rightarrow> app" where
  "recordBtn_click s = (if isRecording s then stopRecording s else startRecording s)"

subsection \<open>One exchange\<close>

definition drop_nth :: "nat \<Rightarrow> 'a list \<Rightarrow> 'a list" where
  "drop_nth i xs = take i xs @ drop (Suc i) xs"

definition flag :: "bool option \<Rightarrow> string" where
  "flag t = (case t of None \<Rightarrow> ''0'' | Some c \<Rightarrow> if c then ''1'' else ''0'')"

definition getItem_or_empty :: "config \<Rightarrow> string \<Rightarrow> string" where
  "getItem_or_empty c k = (case localStorage c k of None \<Rightarrow> [] | Some v \<Rightarrow> v)"

definition append_key :: "string \<Rightarrow> string \<Rightarrow> form_data \<Rightarrow> form_data" where
  "append_key name k fd = (if k \<noteq> [] then fd_append name (TextField k) fd else fd)"

text \<open>\<^verbatim>\<open>FormData.getAll(name)\<close>: the values appended under a name, in order.\<close>

definition fd_getAll :: "form_data \<Rightarrow> string \<Rightarrow> form_value list" where
  "fd_getAll fd name = map snd (filter (\<lambda>e. fst e = name) fd)"

text \<open>The \<^verbatim>\<open>FormData\<close> that \<^verbatim>\<open>onstop\<close> builds from the blob, the toggles and the stored keys.\<close>

definition onstop_form :: "config \<Rightarrow> blob \<Rightarrow> int \<Rightarrow> form_data" where
  "onstop_form c b now =
     append_key ''tavily_api_key'' (getItem_or_empty c ''key_tavily'')
    (append_key ''murf_api_key'' (getItem_or_empty c ''key_murf'')
    (append_key ''gemini_api_key'' (getItem_or_empty c ''key_gemini'')
    (append_key ''assemblyai_api_key'' (getItem_or_empty c ''key_assemblyai'')
    (fd_append ''web_search'' (TextField (flag (webToggle c)))
    (fd_append ''concise'' (TextField (flag (conciseToggle c)))
    (fd_append ''file'' (FileField b (''rec_'' @ string_of_int now @ ''.webm'')) []))))))"

text \<open>\<^verbatim>\<open>mediaRecorder.onstop\<close> up to \<^verbatim>\<open>await fetch\<close>.\<close>

definition onstop :: "int \<Rightarrow> app \<Rightarrow> app" where
  "onstop now s =
     (let b = Blob (chunks s) ''audio/webm'';
          s1 = addMessage (Str ''(captured voice)'') ''right'' s
      in s1\<lparr>inflight := inflight s1 @ [(''/agent/chat/'' @ sessionId s, onstop_form (cfg s) b now)]\<rparr>)"

text \<open>
  Assigning \<^verbatim>\<open>aiAudio.src\<close> makes the element load anew: what was playing ends and the
  promises of earlier \<^verbatim>\<open>play()\<close> calls are rejected. \<^verbatim>\<open>await aiAudio.play()\<close> suspends
  the handler; it goes on when the promise settles.
\<close>

definition set_src :: "jsval \<Rightarrow> app \<Rightarrow> app" where
  "set_src src s =
     s\<lparr>audioSrc := src, audioPlaying := False,
       pendingPlays := map (\<lambda>p. Play (auto_listen p) True) (pendingPlays s)\<rparr>"

definition call_play :: "bool \<Rightarrow> app \<Rightarrow> app" where
  "call_play listen s = s\<lparr>pendingPlays := pendingPlays s @ [Play listen False]\<rparr>"

text \<open>Lines 84 to 87: the awaited response, or the error thrown on the way.\<close>

definition await_json :: "fetch_outcome \<Rightarrow> js_error + jsval" where
  "await_json out =
     (case out of
        NetworkError m \<Rightarrow> Inl (Rejected m)
      | Http r \<Rightarrow>
          (case res_body r of
             None \<Rightarrow> Inl SyntaxError
           | Some js \<Rightarrow>
               if \<not> ok r then
                 (if nullish js then Inl TypeError
                  else Inl (Error (js_or (js_get js ''error'') (Str ''Server error''))))
               else Inr js))"

text \<open>
  The \<^verbatim>\<open>catch\<close> block of \<^verbatim>\<open>onstop\<close> up to its \<^verbatim>\<open>await aiAudio.play()\<close>, after which
  it does nothing more; the error it catches is not used.
\<close>

definition onstop_catch :: "js_error \<Rightarrow> app \<Rightarrow> app" where
  "onstop_catch err s =
     call_play False (set_src (Str fallback_mp3) (addMessage (Str trouble_text) ''left'' s))"

text \<open>
  \<^verbatim>\<open>onstop\<close> from the settled \<^verbatim>\<open>fetch\<close> to the next suspension: lines 84 to 94 up to
  \<^verbatim>\<open>await aiAudio.play()\<close>, or the \<^verbatim>\<open>catch\<close> block.
\<close>

definition onstop_response :: "fetch_outcome \<Rightarrow> app \<Rightarrow> app" where
  "onstop_response out s =
     (case await_json out of
        Inl err \<Rightarrow> onstop_catch err s
      | Inr js \<Rightarrow>
          if nullish js then onstop_catch TypeError s
          else
            call_play True
              (set_src (js_or (js_get js ''audio_url'') (Str fallback_mp3))
                 (addMessage (js_or (js_get js ''llm_text'') (Str ''(no response)'')) ''left'' s)))"

text \<open>
  A \<^verbatim>\<open>play()\<close> promise settles: playback has started (\<open>plays\<close>) or the promise is
  rejected, which the \<^verbatim>\<open>try\<close> around it swallows. The handler suspended at it goes on:
  after line 94 it assigns \<^verbatim>\<open>aiAudio.onended\<close> (line 95), after line 102 it ends.
\<close>

definition play_settled :: "nat \<Rightarrow> bool \<Rightarrow> app \<Rightarrow> app" where
  "play_settled k plays s =
     (let p = pendingPlays s ! k;
          s1 = s\<lparr>pendingPlays := drop_nth k (pendingPlays s)\<rparr>;
          s2 = (if aborted p then s1 else s1\<lparr>audioPlaying := plays\<rparr>)
      in if auto_listen p then s2\<lparr>onended := True\<rparr> else s2)"

text \<open>The \<^verbatim>\<open>ended\<close> event of \<^verbatim>\<open>aiAudio\<close>: the handler, when one is assigned, listens again.\<close>

definition audio_ended :: "app \<Rightarrow> app" where
  "audio_ended s =
     (let s1 = s\<lparr>audioPlaying := False\<rparr> in if onended s then startRecording s1 else s1)"

subsection \<open>Turn detection socket\<close>

text \<open>
  \<^verbatim>\<open>initTurnSocket\<close> is registered twice for \<^verbatim>\<open>DOMContentLoaded\<close> with the same function,
  which the document keeps as one listener. The flag tells whether \<^verbatim>\<open>new WebSocket\<close>
  returned; when it throws, the \<^verbatim>\<open>catch\<close> block only logs.
\<close>

definition initTurnSocket :: "bool \<Rightarrow> app \<Rightarrow> app" where
  "initTurnSocket created s =
     (if created then s\<lparr>turnSocket := Some Connecting, connections := connections s + 1\<rparr> else s)"

definition on_DOMContentLoaded :: "bool \<Rightarrow> app \<Rightarrow> app" where
  "on_DOMContentLoaded created s =
     initTurnSocket created
       (s\<lparr>domLoaded := True,
          sessionText := (case sessionText s of
                            None \<Rightarrow> None
                          | Some t \<Rightarrow> if t = [] then Some (sessionId s) else Some t)\<rparr>)"

text \<open>The condition of line 167.\<close>

definition is_boundary :: "jsval \<Rightarrow> bool" where
  "is_boundary payload =
     (truthy payload \<and> js_get payload ''type'' = Str ''turn'' \<and> truthy (js_get payload ''end_of_turn''))"

text \<open>Lines 168 to 177: reveal the panel and append a row.\<close>

definition show_turn :: "jsval \<Rightarrow> app \<Rightarrow> app" where
  "show_turn payload s =
     s\<lparr>turnBoxHidden := False,
       turnLog := turnLog s @ [js_or (js_get payload ''transcript'') (Str ''(no transcript)'')]\<rparr>"

text \<open>\<^verbatim>\<open>turnSocket.onmessage\<close>; the argument is \<^verbatim>\<open>JSON.parse(evt.data)\<close>, \<open>None\<close> when it throws.\<close>

definition turnSocket_onmessage :: "jsval option \<Rightarrow> app \<Rightarrow> app" where
  "turnSocket_onmessage parsed s =
     (case parsed of
        None \<Rightarrow> s
      | Some payload \<Rightarrow> if is_boundary payload then show_turn payload s else s)"

text \<open>\<^verbatim>\<open>onopen\<close>, \<^verbatim>\<open>onerror\<close> and \<^verbatim>\<open>onclose\<close> only log; the socket changes state by itself.\<close>

definition turnSocket_onopen :: "app \<Rightarrow> app" where
  "turnSocket_onopen s = s\<lparr>turnSocket := Some Open\<rparr>"

definition turnSocket_onerror :: "app \<Rightarrow> app" where
  "turnSocket_onerror s = s"

definition turnSocket_onclose :: "app \<Rightarrow> app" where
  "turnSocket_onclose s = s\<lparr>turnSocket := Some Closed\<rparr>"

subsection \<open>Events and runs\<close>

text \<open>
  Everything the script does happens in a handler, run to its next \<^verbatim>\<open>await\<close> when the
  browser delivers an event. \<open>enabled\<close> says when the browser can deliver an event:
  a microphone answer needs a suspended \<^verbatim>\<open>startRecording\<close>, a recorder event needs that
  recorder in the right state, a response needs a request in flight, a settled \<^verbatim>\<open>play()\<close>
  needs such a call pending (and an aborted one cannot start playback), \<^verbatim>\<open>ended\<close> needs
  audio that plays. Playback can also stop short of its end (\<open>AudioStopped\<close>: a media
  error, or the browser pausing the element), for which the loop has no handler. A recorder
  stops only through \<^verbatim>\<open>stop()\<close>.
\<close>

datatype event =
    Click
  | MicGranted
  | MicDenied string
  | RecorderThrew string
  | StartThrew string
  | DataAvailable nat "blob option"
  | RecorderStop nat int
  | Response nat fetch_outcome
  | PlaySettled nat bool
  | AudioEnded
  | AudioStopped
  | DOMContentLoaded bool
  | WsOpen
  | WsMessage "jsval option"
  | WsError
  | WsClose

fun enabled :: "app \<Rightarrow> event \<Rightarrow> bool" where
  "enabled s Click = True"
| "enabled s MicGranted = (pendingStarts s > 0)"
| "enabled s (MicDenied m) = (pendingStarts s > 0)"
| "enabled s (RecorderThrew m) = (pendingStarts s > 0)"
| "enabled s (StartThrew m) = (pendingStarts s > 0)"
| "enabled s (DataAvailable i d) =
     (i < length (recorders s) \<and> (recorders s ! i = Recording \<or> recorders s ! i = Stopping))"
| "enabled s (RecorderStop i now) = (i < length (recorders s) \<and> recorders s ! i = Stopping)"
| "enabled s (Response i out) = (i < length (inflight s))"
| "enabled s (PlaySettled k plays) =
     (k < length (pendingPlays s) \<and> (plays \<longrightarrow> \<not> aborted (pendingPlays s ! k)))"
| "enabled s AudioEnded = audioPlaying s"
| "enabled s AudioStopped = audioPlaying s"
| "enabled s (DOMContentLoaded created) = (\<not> domLoaded s)"
| "enabled s WsOpen = (turnSocket s = Some Connecting)"
| "enabled s (WsMessage m) = (turnSocket s = Some Open)"
| "enabled s WsError = (turnSocket s = Some Connecting \<or> turnSocket s = Some Open)"
| "enabled s WsClose = (turnSocket s = Some Connecting \<or> turnSocket s = Some Open)"

fun step :: "app \<Rightarrow> event \<Rightarrow> app" where
  "step s Click = recordBtn_click s"
| "step s MicGranted = startRecording_granted s"
| "step s (MicDenied m) = startRecording_denied m s"
| "step s (RecorderThrew m) = startRecording_recorder_threw m s"
| "step s (StartThrew m) = startRecording_start_threw m s"
| "step s (DataAvailable i d) = ondataavailable d s"
| "step s (RecorderStop i now) = onstop now (s\<lparr>recorders := (recorders s)[i := Inactive]\<rparr>)"
| "step s (Response i out) = onstop_response out (s\<lparr>inflight := drop_nth i (inflight s)\<rparr>)"
| "step s (PlaySettled k plays) = play_settled k plays s"
| "step s AudioEnded = audio_ended s"
| "step s AudioStopped = s\<lparr>audioPlaying := False\<rparr>"
| "step s (DOMContentLoaded created) = on_DOMContentLoaded created s"
| "step s WsOpen = turnSocket_onopen s"
| "step s (WsMessage m) = turnSocket_onmessage m s"
| "step s WsError = turnSocket_onerror s"
| "step s WsClose = turnSocket_onclose s"

fun run :: "app \<Rightarrow> event list \<Rightarrow> app option" where
  "run s [] = Some s"
| "run s (e # es) = (if enabled s e then run (step s e) es else None)"

text \<open>The page when the script has run to its end and no event has been delivered yet.\<close>

definition init :: "string \<Rightarrow> config \<Rightarrow> string option \<Rightarrow> app" where
  "init sid c el =
     \<lparr>sessionId = sid, cfg = c, recorders = [], mediaRecorder = None, chunks = [],
      isRecording = False, pendingStarts = 0, streams = 0, inflight = [], pendingPlays = [],
      chat = [],
      statusText = [], toast = [], ariaPressed = False, audioSrc = Undefined,
      audioPlaying = False, onended = False, domLoaded = False, sessionText = el,
      turnSocket = None, connections = 0, turnBoxHidden = True, turnLog = []\<rparr>"

section \<open>The earlier script (part_000)\<close>

text \<open>
  The second script of the repository has the same loop with other handlers: the recorder's
  \<^verbatim>\<open>onstart\<close> sets \<^verbatim>\<open>isRecording\<close>, the upload goes through \<^verbatim>\<open>fetchJson\<close> and
  \<^verbatim>\<open>sendToAgent\<close>, and a failed exchange is reported by \<^verbatim>\<open>setStatus\<close> and
  \<^verbatim>\<open>showToast\<close>. Its names carry the suffix \<open>_p0\<close> where script.js has the same name.
\<close>

record app_p0 =
  sessionId_p0 :: string
  mediaRecorder_p0 :: "rstate option"
  audioChunks :: "blob list"
  recordedBlob :: "blob option"
  isRecording_p0 :: bool
  pendingStarts_p0 :: nat
  inflight_p0 :: "(string \<times> form_data) list"
  chat_p0 :: "(string \<times> jsval) list"
  statusText_p0 :: string
  toast_p0 :: string
  ariaPressed_p0 :: bool
  audioSrc_p0 :: jsval
  audioPlaying_p0 :: bool
  onended_p0 :: bool

definition setStatus :: "string \<Rightarrow> app_p0 \<Rightarrow> app_p0" where
  "setStatus msg s = s\<lparr>statusText_p0 := msg\<rparr>"

definition showToast_p0 :: "string \<Rightarrow> app_p0 \<Rightarrow> app_p0" where
  "showToast_p0 msg s = s\<lparr>toast_p0 := msg\<rparr>"

definition appendMsg :: "string \<Rightarrow> jsval \<Rightarrow> app_p0 \<Rightarrow> app_p0" where
  "appendMsg role txt s = s\<lparr>chat_p0 := chat_p0 s @ [(role, txt)]\<rparr>"

definition startRecording_p0 :: "app_p0 \<Rightarrow> app_p0" where
  "startRecording_p0 s = s\<lparr>pendingStarts_p0 := pendingStarts_p0 s + 1\<rparr>"

definition startRecording_granted_p0 :: "app_p0 \<Rightarrow> app_p0" where
  "startRecording_granted_p0 s =
     s\<lparr>pendingStarts_p0 := pendingStarts_p0 s - 1,
       mediaRecorder_p0 := Some Recording,
       audioChunks := []\<rparr>"

definition startRecording_failed_p0 :: "app_p0 \<Rightarrow> app_p0" where
  "startRecording_failed_p0 s =
     setStatus (''Mic blocked '' @ em_dash @ '' allow and retry'')
       (showToast_p0 (mic_emoji @ '' Microphone permission required'')
          (s\<lparr>pendingStarts_p0 := pendingStarts_p0 s - 1\<rparr>))"

definition onstart_p0 :: "app_p0 \<Rightarrow> app_p0" where
  "onstart_p0 s =
     setStatus (''Listening'' @ ellipsis @ '' tap to stop'')
       (s\<lparr>isRecording_p0 := True, ariaPressed_p0 := True\<rparr>)"

text \<open>
  Line 48 reads \<^verbatim>\<open>e.data.size\<close> without a guard: for an event without data the read
  throws and nothing is pushed.
\<close>

definition ondataavailable_p0 :: "blob option \<Rightarrow> app_p0 \<Rightarrow> app_p0" where
  "ondataavailable_p0 d s =
     (case d of
        None \<Rightarrow> s
      | Some b \<Rightarrow> if blob_size b \<noteq> 0 then s\<lparr>audioChunks := audioChunks s @ [b]\<rparr> else s)"

definition stopRecording_p0 :: "app_p0 \<Rightarrow> app_p0" where
  "stopRecording_p0 s =
     (case mediaRecorder_p0 s of
        None \<Rightarrow> s
      | Some st \<Rightarrow> if st = Recording then s\<lparr>mediaRecorder_p0 := Some Stopping\<rparr> else s)"

definition recordBtn_click_p0 :: "app_p0 \<Rightarrow> app_p0" where
  "recordBtn_click_p0 s = (if isRecording_p0 s then stopRecording_p0 s else startRecording_p0 s)"

text \<open>
  \<^verbatim>\<open>fetchJson\<close>. A body that is not JSON leaves \<^verbatim>\<open>data\<close> null. On a status outside
  200 to 299 it throws an \<^verbatim>\<open>Error\<close> whose message is the first truthy of
  \<^verbatim>\<open>data.error\<close>, \<^verbatim>\<open>data.stage\<close>, \<^verbatim>\<open>data.detail\<close>, or the status line; a message that
  is not a string goes through \<^verbatim>\<open>JSON.stringify\<close>, the browser's function, which is the
  first argument here. The result is the thrown error's message (\<open>Inl\<close>) or the data.
\<close>

definition error_message :: "jsval \<Rightarrow> http_response \<Rightarrow> jsval" where
  "error_message data r =
     js_or (if truthy data
            then js_or (js_or (js_get data ''error'') (js_get data ''stage'')) (js_get data ''detail'')
            else data)
           (Str (string_of_nat (res_status r) @ '' '' @ res_statusText r))"

text \<open>\<^verbatim>\<open>typeof msg === "string" ? msg : JSON.stringify(msg)\<close>\<close>

definition as_message :: "(jsval \<Rightarrow> string) \<Rightarrow> jsval \<Rightarrow> string" where
  "as_message stringify msg = (case msg of Str m \<Rightarrow> m | _ \<Rightarrow> stringify msg)"

definition response_data :: "http_response \<Rightarrow> jsval" where
  "response_data r = (case res_body r of None \<Rightarrow> Null | Some d \<Rightarrow> d)"

definition fetchJson :: "(jsval \<Rightarrow> string) \<Rightarrow> fetch_outcome \<Rightarrow> string + jsval" where
  "fetchJson stringify out =
     (case out of
        NetworkError m \<Rightarrow> Inl m
      | Http r \<Rightarrow>
          (let data = response_data r in
           if \<not> ok r then Inl (as_message stringify (error_message data r))
           else Inr (js_or data (Obj []))))"

text \<open>\<^verbatim>\<open>sendToAgent\<close> up to \<^verbatim>\<open>await fetchJson\<close>: the form holds the file only.\<close>

definition sendToAgent_form :: "blob \<Rightarrow> int \<Rightarrow> form_data" where
  "sendToAgent_form b now = fd_append ''file'' (FileField b (''turn_'' @ string_of_int now @ ''.webm'')) []"

definition sendToAgent :: "blob \<Rightarrow> int \<Rightarrow> app_p0 \<Rightarrow> app_p0" where
  "sendToAgent b now s =
     (setStatus (''Thinking'' @ ellipsis) s)
       \<lparr>inflight_p0 := inflight_p0 s @ [(''/agent/chat/'' @ sessionId_p0 s, sendToAgent_form b now)]\<rparr>"

definition onstop_p0 :: "int \<Rightarrow> app_p0 \<Rightarrow> app_p0" where
  "onstop_p0 now s =
     (let b = Blob (audioChunks s) ''audio/webm'';
          s1 = setStatus (''Processing'' @ ellipsis) (s\<lparr>isRecording_p0 := False, ariaPressed_p0 := False\<rparr>);
          s2 = appendMsg ''user'' (Str (mic_emoji @ '' (captured voice)'')) (s1\<lparr>recordedBlob := Some b\<rparr>)
      in sendToAgent b now s2)"

text \<open>The rest of \<^verbatim>\<open>sendToAgent\<close>, and the \<^verbatim>\<open>catch\<close> that \<^verbatim>\<open>onstop\<close> attaches to it.\<close>

definition sendToAgent_catch :: "string \<Rightarrow> app_p0 \<Rightarrow> app_p0" where
  "sendToAgent_catch m s =
     showToast_p0 (warning_emoji @ '' '' @ m) (setStatus (''Error '' @ em_dash @ '' tap to try again'') s)"

definition sendToAgent_response :: "(jsval \<Rightarrow> string) \<Rightarrow> fetch_outcome \<Rightarrow> bool \<Rightarrow> app_p0 \<Rightarrow> app_p0" where
  "sendToAgent_response stringify out plays s =
     (case fetchJson stringify out of
        Inl m \<Rightarrow> sendToAgent_catch m s
      | Inr data \<Rightarrow>
          (let s1 = (if truthy (js_get data ''transcript'')
                     then appendMsg ''user'' (js_get data ''transcript'') s else s);
               s2 = appendMsg ''assistant'' (js_or (js_get data ''llm_text'') (Str ''(no response)'')) s1;
               s3 = s2\<lparr>audioSrc_p0 := js_or (js_get data ''audio_url'') (Str fallback_mp3),
                       audioPlaying_p0 := plays\<rparr>;
               s4 = setStatus (if truthy (js_get data ''fallback'')
                               then ''Speaking (fallback)...'' else ''Speaking'' @ ellipsis) s3
           in s4\<lparr>onended_p0 := True\<rparr>))"

definition audio_ended_p0 :: "app_p0 \<Rightarrow> app_p0" where
  "audio_ended_p0 s =
     (let s1 = s\<lparr>audioPlaying_p0 := False\<rparr>
      in if onended_p0 s then startRecording_p0 (setStatus ''Tap to start recording'' s1) else s1)"

section \<open>Notions of the specification\<close>

text \<open>
  Two things can be called a capture. \<open>live\<close> counts the recorders that record.
  \<open>streams\<close> counts the device streams handed out; as no track is ever stopped, each of
  them stays open as far as the script goes. The loop is idle when nothing is pending: no
  microphone request, no recorder recording or about to deliver its \<^verbatim>\<open>stop\<close> event, no
  request in flight, no \<^verbatim>\<open>play()\<close> call unsettled, no audio playing.
\<close>

definition live :: "app \<Rightarrow> nat" where
  "live s = count_list (recorders s) Recording"









text \<open>A credential override is configured when the store holds a non-empty value for its key.\<close>

definition configured :: "config \<Rightarrow> string \<Rightarrow> bool" where
  "configured c k = (case localStorage c k of None \<Rightarrow> False | Some v \<Rightarrow> v \<noteq> [])"

text \<open>The fragments that carry data, in the order of arrival.\<close>

definition nonempty_fragments :: "blob option list \<Rightarrow> blob list" where
  "nonempty_fragments ds = filter (\<lambda>b. blob_size b > 0) (List.map_filter (\<lambda>d. d) ds)"

text \<open>An exchange fails when the request rejects, the status is outside 200 to 299, or the
  body is not a JSON value other than null.\<close>

definition turn_fails :: "fetch_outcome \<Rightarrow> bool" where
  "turn_fails out =
     (case out of
        NetworkError m \<Rightarrow> True
      | Http r \<Rightarrow> \<not> ok r \<or> (case res_body r of None \<Rightarrow> True | Some js \<Rightarrow> nullish js))"

section \<open>Concrete pages and responses\<close>

text \<open>A page without toggles and stored keys, and the replies of the specification's scenarios.\<close>

definition fragment :: "byte list \<Rightarrow> blob" where
  "fragment bs = \<lparr>bytes = bs, mime = ''audio/webm;codecs=opus''\<rparr>"

definition page0 :: app where
  "page0 = init ''1'' \<lparr>conciseToggle = None, webToggle = None, localStorage = Map.empty\<rparr> None"

definition reply_ok :: fetch_outcome where
  "reply_ok = Http \<lparr>res_status = 200, res_statusText = ''OK'',
     res_body = Some (Obj [(''transcript'', Str ''hello''), (''llm_text'', Str ''hi there''),
                           (''audio_url'', Str ''https://x/reply.mp3'')])\<rparr>"

definition reply_bare :: http_response where
  "reply_bare = \<lparr>res_status = 200, res_statusText = ''OK'',
     res_body = Some (Obj [(''transcript'', Str ''hello'')])\<rparr>"

definition reply_failed :: fetch_outcome where
  "reply_failed = Http \<lparr>res_status = 500, res_statusText = ''Internal Server Error'',
     res_body = Some (Obj [(''stage'', Str ''synthesize''), (''error'', Str ''quota exceeded'')])\<rparr>"

text \<open>The page while its first exchange is pending.\<close>

definition page_exchanging :: app where
  "page_exchanging = foldl step page0 [Click, MicGranted, Click, RecorderStop 0 5]"


definition page0_p0 :: app_p0 where
  "page0_p0 =
     \<lparr>sessionId_p0 = ''1'', mediaRecorder_p0 = None, audioChunks = [], recordedBlob = None,
      isRecording_p0 = False, pendingStarts_p0 = 0, inflight_p0 = [], chat_p0 = [],
      statusText_p0 = [], toast_p0 = [], ariaPressed_p0 = False, audioSrc_p0 = Undefined,
      audioPlaying_p0 = False, onended_p0 = False\<rparr>"

section \<open>Properties of session handling\<close>

lemma string_of_nat_nonempty: "string_of_nat n \<noteq> []"
  by (subst string_of_nat.simps) simp

lemma string_of_int_nonempty: "string_of_int i \<noteq> []"
  by (simp add: string_of_int_def string_of_nat_nonempty)

lemma usp_get_set: "usp_get (usp_set k v ps) k = Some v"
  by (induction ps) (auto simp: usp_get_def)

lemma ensureSessionId_key_stored:
  "usp_get (search (snd (ensureSessionId now n))) ''session_id'' = Some (fst (ensureSessionId now n))"
  by (auto simp: ensureSessionId_def Let_def usp_get_set split: option.splits)

lemma ensureSessionId_key_nonempty: "fst (ensureSessionId now n) \<noteq> []"
  by (auto simp: ensureSessionId_def Let_def string_of_int_nonempty split: option.splits)

text \<open>
  C6. \<^verbatim>\<open>ensureSessionId\<close> is idempotent within a tab: a second call, at any later clock
  value and without navigation in between, returns the key the first call returned and
  leaves the navigational context as the first call left it, whether the first call read
  the key from the query or synthesised it and wrote it back.
\<close>

theorem ensureSessionId_idempotent:
  "ensureSessionId now2 (snd (ensureSessionId now1 n)) =
     (fst (ensureSessionId now1 n), snd (ensureSessionId now1 n))"
proof -
  obtain id n' where first: "ensureSessionId now1 n = (id, n')"
    by (cases "ensureSessionId now1 n")
  have stored: "usp_get (search n') ''session_id'' = Some id"
    using ensureSessionId_key_stored [of now1 n] first by simp
  have nonempty: "id \<noteq> []"
    using ensureSessionId_key_nonempty [of now1 n] first by simp
  have text_ok: "sessionIdText n' = (case sessionIdText n' of None \<Rightarrow> None | Some _ \<Rightarrow> Some id)"
    using first by (auto simp: ensureSessionId_def Let_def split: option.splits if_splits)
  have "ensureSessionId now2 n' = (id, n')"
    using stored nonempty text_ok by (simp add: ensureSessionId_def)
  with first show ?thesis by simp
qed

section \<open>Shared facts\<close>

lemmas loop_handlers = recordBtn_click_def startRecording_def startRecording_granted_def
  startRecording_catch_def startRecording_denied_def startRecording_recorder_threw_def
  startRecording_start_threw_def stopRecording_def showToast_def addMessage_def
  ondataavailable_def onstop_def onstop_response_def onstop_catch_def set_src_def call_play_def
  play_settled_def audio_ended_def

lemmas socket_handlers = on_DOMContentLoaded_def initTurnSocket_def turnSocket_onopen_def
  turnSocket_onmessage_def turnSocket_onerror_def turnSocket_onclose_def show_turn_def

lemmas eval_defs = page0_def reply_ok_def reply_bare_def reply_failed_def init_def loop_handlers
  await_json_def ok_def nullish_def js_or_def drop_nth_def Let_def

lemma run_append:
  "run s (xs @ ys) = (case run s xs of None \<Rightarrow> None | Some s1 \<Rightarrow> run s1 ys)"
  by (induction xs arbitrary: s) simp_all

lemma await_json_success:
  "ok r \<Longrightarrow> res_body r = Some js \<Longrightarrow> await_json (Http r) = Inr js"
  by (simp add: await_json_def)

lemma await_json_fails:
  "turn_fails out \<Longrightarrow>
     (\<exists>err. await_json out = Inl err) \<or> (\<exists>js. await_json out = Inr js \<and> nullish js)"
  by (cases out) (auto simp: turn_fails_def await_json_def split: option.splits)

lemma fetchJson_success:
  "ok r \<Longrightarrow> res_body r = Some js \<Longrightarrow> fetchJson stringify (Http r) = Inr (js_or js (Obj []))"
  by (simp add: fetchJson_def response_data_def)

lemma page_exchanging_reached:
  "run page0 [Click, MicGranted, Click, RecorderStop 0 5] = Some page_exchanging"
  by (simp add: page_exchanging_def eval_defs)

section \<open>Exclusive capture (C1)\<close>


























section \<open>After a failed turn (C2, C3)\<close>

text \<open>
  C2. A failed turn must not listen again by itself. In script.js the handler that a
  successful turn assigns to \<^verbatim>\<open>aiAudio.onended\<close> is never removed: after one successful
  turn, the fallback audio of a failed turn ends and \<^verbatim>\<open>startRecording\<close> is called with no
  gesture (one microphone request pending, then a live capture).
\<close>

theorem stale_auto_listen_after_failure:
  "map_option (\<lambda>s. (pendingStarts s, audioSrc s))
     (run page0 [Click, MicGranted, Click, RecorderStop 0 5, Response 0 reply_ok,
                 PlaySettled 0 True, AudioEnded, MicGranted, Click, RecorderStop 1 9,
                 Response 0 reply_failed, PlaySettled 0 True, AudioEnded])
     = Some (1, Str fallback_mp3)
   \<and> map_option (\<lambda>s. (isRecording s, live s))
     (run page0 [Click, MicGranted, Click, RecorderStop 0 5, Response 0 reply_ok,
                 PlaySettled 0 True, AudioEnded, MicGranted, Click, RecorderStop 1 9,
                 Response 0 reply_failed, PlaySettled 0 True, AudioEnded, MicGranted])
     = Some (True, 1)"
  by (simp add: eval_defs live_def)

text \<open>When no turn has succeeded before, the failed turn does end without listening again.\<close>

lemma drop_nth_last: "drop_nth (length xs) (xs @ [x]) = xs"
  by (simp add: drop_nth_def)

lemma failed_onstop_response:
  "turn_fails out \<Longrightarrow>
     onstop_response out s =
       s\<lparr>chat := chat s @ [(Str trouble_text, ''left'')],
          audioSrc := Str fallback_mp3,
          audioPlaying := False,
          pendingPlays := map (\<lambda>p. Play (auto_listen p) True) (pendingPlays s) @ [Play False False]\<rparr>"
  using await_json_fails [of out]
  by (auto simp: onstop_response_def onstop_catch_def set_src_def call_play_def addMessage_def)

lemma failed_response:
  "turn_fails out \<Longrightarrow>
     step s (Response i out) =
       s\<lparr>inflight := drop_nth i (inflight s),
          chat := chat s @ [(Str trouble_text, ''left'')],
          audioSrc := Str fallback_mp3,
          audioPlaying := False,
          pendingPlays := map (\<lambda>p. Play (auto_listen p) True) (pendingPlays s) @ [Play False False]\<rparr>"
  by (simp add: failed_onstop_response)

lemma failed_response_settled:
  "turn_fails out \<Longrightarrow>
     step (step s (Response i out)) (PlaySettled (length (pendingPlays s)) plays) =
       s\<lparr>inflight := drop_nth i (inflight s),
          chat := chat s @ [(Str trouble_text, ''left'')],
          audioSrc := Str fallback_mp3,
          audioPlaying := plays,
          pendingPlays := map (\<lambda>p. Play (auto_listen p) True) (pendingPlays s)\<rparr>"
  using drop_nth_last [of "map (\<lambda>p. Play (auto_listen p) True) (pendingPlays s)" "Play False False"]
  by (simp add: failed_onstop_response play_settled_def Let_def nth_append)

lemma first_failure_stays_idle:
  "turn_fails out \<Longrightarrow> \<not> onended s \<Longrightarrow>
     pendingStarts (step (step (step s (Response i out)) (PlaySettled (length (pendingPlays s)) plays))
                      AudioEnded) = pendingStarts s"
  using drop_nth_last [of "map (\<lambda>p. Play (auto_listen p) True) (pendingPlays s)" "Play False False"]
  by (simp add: failed_onstop_response play_settled_def Let_def nth_append audio_ended_def)

text \<open>The earlier script plays nothing and asks for no microphone when the exchange fails.\<close>

lemma sendToAgent_failure_p0:
  "fetchJson stringify out = Inl m \<Longrightarrow>
     audioSrc_p0 (sendToAgent_response stringify out plays t) = audioSrc_p0 t \<and>
     audioPlaying_p0 (sendToAgent_response stringify out plays t) = audioPlaying_p0 t \<and>
     pendingStarts_p0 (sendToAgent_response stringify out plays t) = pendingStarts_p0 t"
  by (simp add: sendToAgent_response_def sendToAgent_catch_def setStatus_def showToast_p0_def)

text \<open>
  C3, as the code has it. Whatever made the exchange fail, script.js appends one fixed
  message to the chat and plays the fixed fallback asset; nothing of the failure is shown.
  The earlier script shows the thrown message in a toast and sets a fixed status text.
\<close>

theorem failure_presentation:
  "(turn_fails out \<longrightarrow>
      step s (Response i out) =
        s\<lparr>inflight := drop_nth i (inflight s),
           chat := chat s @ [(Str trouble_text, ''left'')],
           audioSrc := Str fallback_mp3,
           audioPlaying := False,
           pendingPlays := map (\<lambda>p. Play (auto_listen p) True) (pendingPlays s) @ [Play False False]\<rparr>
      \<and> step (step s (Response i out)) (PlaySettled (length (pendingPlays s)) plays) =
        s\<lparr>inflight := drop_nth i (inflight s),
           chat := chat s @ [(Str trouble_text, ''left'')],
           audioSrc := Str fallback_mp3,
           audioPlaying := plays,
           pendingPlays := map (\<lambda>p. Play (auto_listen p) True) (pendingPlays s)\<rparr>)
   \<and> (fetchJson stringify out = Inl m \<longrightarrow>
        sendToAgent_response stringify out plays t =
          t\<lparr>statusText_p0 := ''Error '' @ em_dash @ '' tap to try again'',
             toast_p0 := warning_emoji @ '' '' @ m\<rparr>)"
proof -
  have b: "sendToAgent_response stringify out plays t =
          t\<lparr>statusText_p0 := ''Error '' @ em_dash @ '' tap to try again'',
             toast_p0 := warning_emoji @ '' '' @ m\<rparr>" if "fetchJson stringify out = Inl m"
    using that by (simp add: sendToAgent_response_def sendToAgent_catch_def setStatus_def showToast_p0_def)
  from failed_response [of out s i] failed_response_settled [of out s i plays] b
  show ?thesis by blast
qed

theorem failure_presentation_witness:
  "turn_fails reply_failed
   \<and> chat (step (step page_exchanging (Response 0 reply_failed)) (PlaySettled 0 True)) =
       [(Str ''(captured voice)'', ''right''), (Str trouble_text, ''left'')]
   \<and> audioSrc (step (step page_exchanging (Response 0 reply_failed)) (PlaySettled 0 True)) =
       Str fallback_mp3
   \<and> audioPlaying (step (step page_exchanging (Response 0 reply_failed)) (PlaySettled 0 True))
   \<and> fetchJson (\<lambda>v. ''?'') reply_failed = Inl ''quota exceeded''
   \<and> toast_p0 (sendToAgent_response (\<lambda>v. ''?'') reply_failed True page0_p0) =
       warning_emoji @ '' quota exceeded''"
proof -
  have f: "turn_fails reply_failed"
    by (simp add: turn_fails_def reply_failed_def ok_def)
  have m: "fetchJson (\<lambda>v. ''?'') reply_failed = Inl ''quota exceeded''"
    by (simp add: fetchJson_def reply_failed_def ok_def response_data_def error_message_def
        js_or_def as_message_def)
  have c: "chat page_exchanging = [(Str ''(captured voice)'', ''right'')]"
    "pendingPlays page_exchanging = []"
    by (simp_all add: page_exchanging_def eval_defs)
  note fp = failure_presentation [of reply_failed page_exchanging 0 True "\<lambda>v. ''?''"
      "''quota exceeded''" page0_p0]
  from fp f have eq: "step (step page_exchanging (Response 0 reply_failed)) (PlaySettled 0 True) =
        page_exchanging\<lparr>inflight := drop_nth 0 (inflight page_exchanging),
           chat := chat page_exchanging @ [(Str trouble_text, ''left'')],
           audioSrc := Str fallback_mp3,
           audioPlaying := True,
           pendingPlays := []\<rparr>"
    unfolding c(2) list.size(3) list.map(1) by blast
  from fp m have t: "sendToAgent_response (\<lambda>v. ''?'') reply_failed True page0_p0 =
          page0_p0\<lparr>statusText_p0 := ''Error '' @ em_dash @ '' tap to try again'',
             toast_p0 := warning_emoji @ '' '' @ ''quota exceeded''\<rparr>"
    by blast
  have 1: "chat (step (step page_exchanging (Response 0 reply_failed)) (PlaySettled 0 True)) =
       [(Str ''(captured voice)'', ''right''), (Str trouble_text, ''left'')]"
    by (subst eq) (simp add: c(1))
  have 2: "audioSrc (step (step page_exchanging (Response 0 reply_failed)) (PlaySettled 0 True)) =
       Str fallback_mp3"
    by (subst eq) simp
  have 3: "audioPlaying (step (step page_exchanging (Response 0 reply_failed)) (PlaySettled 0 True))"
    by (subst eq) simp
  have 4: "toast_p0 (sendToAgent_response (\<lambda>v. ''?'') reply_failed True page0_p0) =
       warning_emoji @ '' quota exceeded''"
    by (subst t) simp
  from f 1 2 3 m 4 show ?thesis
    by (intro conjI)
qed

text \<open>
  A turn that fails at the stage \<^verbatim>\<open>synthesize\<close> with the message \<^verbatim>\<open>quota exceeded\<close>:
  the texts on the page are the fixed ones, and the page is the one a rejected request
  leaves.
\<close>

theorem failure_presentation_counterexample:
  "map_option (\<lambda>s. (chat s, toast s, statusText s, audioSrc s))
     (run page0 [Click, MicGranted, Click, RecorderStop 0 5, Response 0 reply_failed,
                 PlaySettled 0 True])
     = Some ([(Str ''(captured voice)'', ''right''), (Str trouble_text, ''left'')],
             ''Recording stopped'', ''Thinking'' @ ellipsis, Str fallback_mp3)
   \<and> run page0 [Click, MicGranted, Click, RecorderStop 0 5, Response 0 reply_failed,
                PlaySettled 0 True]
     = run page0 [Click, MicGranted, Click, RecorderStop 0 5,
                  Response 0 (NetworkError ''Failed to fetch''), PlaySettled 0 True]"
  by (simp add: eval_defs)

section \<open>What a failed response carries (C4)\<close>

lemma error_message_cases:
  "error_message data r =
     (if truthy (js_get data ''error'') then js_get data ''error''
      else if truthy (js_get data ''stage'') then js_get data ''stage''
      else if truthy (js_get data ''detail'') then js_get data ''detail''
      else Str (string_of_nat (res_status r) @ '' '' @ res_statusText r))"
  by (cases data) (simp_all add: error_message_def js_or_def)

text \<open>
  C4, as the code has it. On a status outside 200 to 299 the failure is one message and no
  stage. In the earlier script's \<^verbatim>\<open>fetchJson\<close> the message is the first truthy of the
  body's \<^verbatim>\<open>error\<close>, \<^verbatim>\<open>stage\<close> and \<^verbatim>\<open>detail\<close>, and the status code with the status text
  when none is (or the body is not JSON). In script.js it is the body's \<^verbatim>\<open>error\<close> or the
  fixed text \<^verbatim>\<open>Server error\<close>; a body that is not JSON or is null throws before that.
\<close>

theorem failure_carries_one_message:
  assumes "\<not> ok r"
  shows "fetchJson stringify (Http r) =
           Inl (as_message stringify
             (if truthy (js_get (response_data r) ''error'') then js_get (response_data r) ''error''
              else if truthy (js_get (response_data r) ''stage'') then js_get (response_data r) ''stage''
              else if truthy (js_get (response_data r) ''detail'') then js_get (response_data r) ''detail''
              else Str (string_of_nat (res_status r) @ '' '' @ res_statusText r)))
       \<and> await_json (Http r) =
           (case res_body r of
              None \<Rightarrow> Inl SyntaxError
            | Some js \<Rightarrow>
                if nullish js then Inl TypeError
                else Inl (Error (if truthy (js_get js ''error'') then js_get js ''error''
                                 else Str ''Server error'')))"
  using assms
  by (simp add: fetchJson_def error_message_cases await_json_def js_or_def split: option.splits)

theorem failure_carries_one_message_witness:
  "fetchJson (\<lambda>v. ''?'') (Http \<lparr>res_status = 500, res_statusText = ''Internal Server Error'',
       res_body = Some (Obj [(''stage'', Str ''tts''), (''error'', Str ''quota exceeded'')])\<rparr>)
     = Inl ''quota exceeded''
   \<and> fetchJson (\<lambda>v. ''?'') (Http \<lparr>res_status = 502, res_statusText = ''Bad Gateway'', res_body = None\<rparr>)
     = Inl ''502 Bad Gateway''
   \<and> await_json (Http \<lparr>res_status = 502, res_statusText = ''Bad Gateway'', res_body = None\<rparr>)
     = Inl SyntaxError"
  using failure_carries_one_message [of "\<lparr>res_status = 500, res_statusText = ''Internal Server Error'',
       res_body = Some (Obj [(''stage'', Str ''tts''), (''error'', Str ''quota exceeded'')])\<rparr>" "\<lambda>v. ''?''"]
    failure_carries_one_message [of "\<lparr>res_status = 502, res_statusText = ''Bad Gateway'', res_body = None\<rparr>" "\<lambda>v. ''?''"]
  by (simp add: ok_def response_data_def as_message_def string_of_nat.simps digit_char_def)

text \<open>
  A body with a stage and no error: the message is the stage's name, not a text made from the
  status code. Two bodies that differ in the stage only: the same failure. In script.js a
  body with a stage and a detail: the fixed text.
\<close>

theorem failure_stage_counterexample:
  "fetchJson (\<lambda>v. ''?'') (Http \<lparr>res_status = 500, res_statusText = ''Internal Server Error'',
       res_body = Some (Obj [(''stage'', Str ''llm'')])\<rparr>) = Inl ''llm''
   \<and> fetchJson (\<lambda>v. ''?'') (Http \<lparr>res_status = 500, res_statusText = ''Internal Server Error'',
       res_body = Some (Obj [(''stage'', Str ''llm''), (''error'', Str ''boom'')])\<rparr>)
     = fetchJson (\<lambda>v. ''?'') (Http \<lparr>res_status = 500, res_statusText = ''Internal Server Error'',
       res_body = Some (Obj [(''stage'', Str ''tts''), (''error'', Str ''boom'')])\<rparr>)
   \<and> await_json (Http \<lparr>res_status = 500, res_statusText = ''Internal Server Error'',
       res_body = Some (Obj [(''stage'', Str ''llm''), (''detail'', Str ''quota exceeded'')])\<rparr>)
     = Inl (Error (Str ''Server error''))"
  by (simp add: fetchJson_def error_message_def await_json_def js_or_def ok_def response_data_def
      as_message_def nullish_def)

section \<open>The outbound form (C5)\<close>

lemma getAll_fd_append:
  "fd_getAll (fd_append name v fd) x = fd_getAll fd x @ (if x = name then [v] else [])"
  by (simp add: fd_getAll_def fd_append_def)

lemma getAll_append_key:
  "fd_getAll (append_key name k fd) x =
     fd_getAll fd x @ (if x = name \<and> k \<noteq> [] then [TextField k] else [])"
  by (simp add: append_key_def getAll_fd_append)

lemma getAll_empty: "fd_getAll [] x = []"
  by (simp add: fd_getAll_def)

lemma getItem_configured:
  "getItem_or_empty c k \<noteq> [] \<longleftrightarrow> configured c k"
  "configured c k \<Longrightarrow> getItem_or_empty c k = the (localStorage c k)"
  by (simp_all add: getItem_or_empty_def configured_def split: option.splits)

lemma flag_text: "flag t = (if t = Some True then ''1'' else ''0'')"
  by (cases t) (simp_all add: flag_def)

lemma onstop_form_plain:
  assumes "\<not> configured c ''key_assemblyai''" "\<not> configured c ''key_gemini''"
    "\<not> configured c ''key_murf''" "\<not> configured c ''key_tavily''"
  shows "onstop_form c b now =
        [(''file'', FileField b (''rec_'' @ string_of_int now @ ''.webm'')),
         (''concise'', TextField (flag (conciseToggle c))),
         (''web_search'', TextField (flag (webToggle c)))]"
  using assms unfolding getItem_configured(1) [symmetric]
  by (simp add: onstop_form_def append_key_def fd_append_def)

lemmas getAll_form = onstop_form_def getAll_append_key getAll_fd_append getAll_empty

text \<open>
  C5. With the concise toggle on, the web-search toggle off and no credential configured,
  the form that script.js submits is the file, \<^verbatim>\<open>concise\<close> = "1" and \<^verbatim>\<open>web_search\<close> = "0",
  and nothing else. In general each flag is "1" when its toggle is checked and "0" otherwise,
  and each credential field is present exactly when a non-empty value is stored for it, and
  then carries that value.
\<close>

theorem turn_request_form:
  "(conciseToggle c = Some True \<and> webToggle c = Some False \<and>
      \<not> configured c ''key_assemblyai'' \<and> \<not> configured c ''key_gemini'' \<and>
      \<not> configured c ''key_murf'' \<and> \<not> configured c ''key_tavily'' \<longrightarrow>
      onstop_form c b now =
        [(''file'', FileField b (''rec_'' @ string_of_int now @ ''.webm'')),
         (''concise'', TextField ''1''), (''web_search'', TextField ''0'')])
   \<and> fd_getAll (onstop_form c b now) ''concise'' =
        [TextField (if conciseToggle c = Some True then ''1'' else ''0'')]
   \<and> fd_getAll (onstop_form c b now) ''web_search'' =
        [TextField (if webToggle c = Some True then ''1'' else ''0'')]
   \<and> fd_getAll (onstop_form c b now) ''assemblyai_api_key'' =
        (if configured c ''key_assemblyai'' then [TextField (the (localStorage c ''key_assemblyai''))] else [])
   \<and> fd_getAll (onstop_form c b now) ''gemini_api_key'' =
        (if configured c ''key_gemini'' then [TextField (the (localStorage c ''key_gemini''))] else [])
   \<and> fd_getAll (onstop_form c b now) ''murf_api_key'' =
        (if configured c ''key_murf'' then [TextField (the (localStorage c ''key_murf''))] else [])
   \<and> fd_getAll (onstop_form c b now) ''tavily_api_key'' =
        (if configured c ''key_tavily'' then [TextField (the (localStorage c ''key_tavily''))] else [])"
proof -
  have plain: "conciseToggle c = Some True \<and> webToggle c = Some False \<and>
      \<not> configured c ''key_assemblyai'' \<and> \<not> configured c ''key_gemini'' \<and>
      \<not> configured c ''key_murf'' \<and> \<not> configured c ''key_tavily'' \<longrightarrow>
      onstop_form c b now =
        [(''file'', FileField b (''rec_'' @ string_of_int now @ ''.webm'')),
         (''concise'', TextField ''1''), (''web_search'', TextField ''0'')]"
    by (simp add: onstop_form_plain flag_text)
  have concise: "fd_getAll (onstop_form c b now) ''concise'' =
        [TextField (if conciseToggle c = Some True then ''1'' else ''0'')]"
    by (simp add: getAll_form flag_text)
  have web: "fd_getAll (onstop_form c b now) ''web_search'' =
        [TextField (if webToggle c = Some True then ''1'' else ''0'')]"
    by (simp add: getAll_form flag_text)
  have k1: "fd_getAll (onstop_form c b now) ''assemblyai_api_key'' =
        (if configured c ''key_assemblyai'' then [TextField (the (localStorage c ''key_assemblyai''))] else [])"
    by (simp add: getAll_form getItem_configured)
  have k2: "fd_getAll (onstop_form c b now) ''gemini_api_key'' =
        (if configured c ''key_gemini'' then [TextField (the (localStorage c ''key_gemini''))] else [])"
    by (simp add: getAll_form getItem_configured)
  have k3: "fd_getAll (onstop_form c b now) ''murf_api_key'' =
        (if configured c ''key_murf'' then [TextField (the (localStorage c ''key_murf''))] else [])"
    by (simp add: getAll_form getItem_configured)
  have k4: "fd_getAll (onstop_form c b now) ''tavily_api_key'' =
        (if configured c ''key_tavily'' then [TextField (the (localStorage c ''key_tavily''))] else [])"
    by (simp add: getAll_form getItem_configured)
  from plain concise web k1 k2 k3 k4 show ?thesis by blast
qed

theorem turn_request_form_witness:
  "onstop_form \<lparr>conciseToggle = Some True, webToggle = Some False, localStorage = Map.empty\<rparr>
      (fragment [1, 2]) 5 =
     [(''file'', FileField (fragment [1, 2]) ''rec_5.webm''),
      (''concise'', TextField ''1''), (''web_search'', TextField ''0'')]
   \<and> fd_getAll (onstop_form \<lparr>conciseToggle = None, webToggle = Some True,
                    localStorage = [''key_murf'' \<mapsto> ''m1'', ''key_gemini'' \<mapsto> '''']\<rparr>
                 (fragment []) 5) ''murf_api_key'' = [TextField ''m1'']
   \<and> fd_getAll (onstop_form \<lparr>conciseToggle = None, webToggle = Some True,
                    localStorage = [''key_murf'' \<mapsto> ''m1'', ''key_gemini'' \<mapsto> '''']\<rparr>
                 (fragment []) 5) ''gemini_api_key'' = []"
  using turn_request_form [of "\<lparr>conciseToggle = Some True, webToggle = Some False, localStorage = Map.empty\<rparr>"
      "fragment [1, 2]" 5]
    turn_request_form [of "\<lparr>conciseToggle = None, webToggle = Some True,
                    localStorage = [''key_murf'' \<mapsto> ''m1'', ''key_gemini'' \<mapsto> '''']\<rparr>"
      "fragment []" 5]
  by (simp add: configured_def string_of_int_def string_of_nat.simps digit_char_def)

text \<open>The earlier script submits the file alone.\<close>

lemma sendToAgent_form_fields:
  "sendToAgent_form b now = [(''file'', FileField b (''turn_'' @ string_of_int now @ ''.webm''))]"
  by (simp add: sendToAgent_form_def fd_append_def)

section \<open>A successful reply (C7)\<close>

lemma success_reply_fields:
  assumes "ok r" and "res_body r = Some js" and "\<not> nullish js"
    and "s' = step (step s (Response i (Http r))) (PlaySettled (length (pendingPlays s)) plays)"
    and "t' = sendToAgent_response stringify (Http r) plays t"
    and "data = js_or js (Obj [])"
  shows "chat s' = chat s @ [(js_or (js_get js ''llm_text'') (Str ''(no response)''), ''left'')]
       \<and> audioSrc s' = js_or (js_get js ''audio_url'') (Str fallback_mp3)
       \<and> (js_get js ''llm_text'' = Undefined \<longrightarrow> last (chat s') = (Str ''(no response)'', ''left''))
       \<and> (js_get js ''audio_url'' = Undefined \<longrightarrow> audioSrc s' = Str fallback_mp3)
       \<and> audioPlaying s' = plays \<and> onended s'
       \<and> pendingStarts (step s' AudioEnded) = pendingStarts s + 1
       \<and> last (chat_p0 t') = (''assistant'', js_or (js_get data ''llm_text'') (Str ''(no response)''))
       \<and> audioSrc_p0 t' = js_or (js_get data ''audio_url'') (Str fallback_mp3)
       \<and> (js_get data ''llm_text'' = Undefined \<longrightarrow> last (chat_p0 t') = (''assistant'', Str ''(no response)''))
       \<and> (js_get data ''audio_url'' = Undefined \<longrightarrow> audioSrc_p0 t' = Str fallback_mp3)
       \<and> audioPlaying_p0 t' = plays \<and> onended_p0 t'
       \<and> pendingStarts_p0 (audio_ended_p0 t') = pendingStarts_p0 t + 1"
proof -
  have s': "s' = (s\<lparr>inflight := drop_nth i (inflight s),
                     chat := chat s @ [(js_or (js_get js ''llm_text'') (Str ''(no response)''), ''left'')],
                     audioSrc := js_or (js_get js ''audio_url'') (Str fallback_mp3),
                     audioPlaying := plays, onended := True,
                     pendingPlays := map (\<lambda>p. Play (auto_listen p) True) (pendingPlays s)\<rparr>)"
    using assms(3)
      drop_nth_last [of "map (\<lambda>p. Play (auto_listen p) True) (pendingPlays s)" "Play True False"]
    by (simp add: assms(4) onstop_response_def await_json_success [OF assms(1,2)]
        set_src_def call_play_def addMessage_def play_settled_def Let_def nth_append)
  have t': "onended_p0 t'" "audioPlaying_p0 t' = plays"
    "audioSrc_p0 t' = js_or (js_get data ''audio_url'') (Str fallback_mp3)"
    "last (chat_p0 t') = (''assistant'', js_or (js_get data ''llm_text'') (Str ''(no response)''))"
    "pendingStarts_p0 t' = pendingStarts_p0 t"
    by (simp_all add: assms(5,6) sendToAgent_response_def fetchJson_success [OF assms(1,2)]
        Let_def setStatus_def appendMsg_def)
  have loop: "pendingStarts (step s' AudioEnded) = pendingStarts s + 1"
    by (simp add: s' audio_ended_def startRecording_def)
  have loop_p0: "pendingStarts_p0 (audio_ended_p0 t') = pendingStarts_p0 t + 1"
    using t'(1,5) by (simp add: audio_ended_p0_def startRecording_p0_def setStatus_def)
  show ?thesis
    using loop loop_p0 t'(1-4) by (simp add: s' js_or_def)
qed

text \<open>
  C7. For a response with a status from 200 to 299 and a JSON body other than null, both
  scripts show the reply text, or the placeholder \<^verbatim>\<open>(no response)\<close> when the body has no
  (truthy) \<^verbatim>\<open>llm_text\<close>; they play the reply audio, or the fallback asset when the body has
  no (truthy) \<^verbatim>\<open>audio_url\<close>; and the turn goes the way of every successful turn: playback is
  started, the auto-listen handler is installed, and the end of playback calls
  \<^verbatim>\<open>startRecording\<close>.
\<close>

theorem success_reply_defaults:
  assumes "ok r" and "res_body r = Some js" and "\<not> nullish js"
  shows "(let s' = step (step s (Response i (Http r))) (PlaySettled (length (pendingPlays s)) plays) in
           chat s' = chat s @ [(js_or (js_get js ''llm_text'') (Str ''(no response)''), ''left'')]
         \<and> audioSrc s' = js_or (js_get js ''audio_url'') (Str fallback_mp3)
         \<and> (js_get js ''llm_text'' = Undefined \<longrightarrow> last (chat s') = (Str ''(no response)'', ''left''))
         \<and> (js_get js ''audio_url'' = Undefined \<longrightarrow> audioSrc s' = Str fallback_mp3)
         \<and> audioPlaying s' = plays \<and> onended s'
         \<and> pendingStarts (step s' AudioEnded) = pendingStarts s + 1)
       \<and> (let t' = sendToAgent_response stringify (Http r) plays t; data = js_or js (Obj []) in
           last (chat_p0 t') = (''assistant'', js_or (js_get data ''llm_text'') (Str ''(no response)''))
         \<and> audioSrc_p0 t' = js_or (js_get data ''audio_url'') (Str fallback_mp3)
         \<and> (js_get data ''llm_text'' = Undefined \<longrightarrow> last (chat_p0 t') = (''assistant'', Str ''(no response)''))
         \<and> (js_get data ''audio_url'' = Undefined \<longrightarrow> audioSrc_p0 t' = Str fallback_mp3)
         \<and> audioPlaying_p0 t' = plays \<and> onended_p0 t'
         \<and> pendingStarts_p0 (audio_ended_p0 t') = pendingStarts_p0 t + 1)"
  using success_reply_fields [OF assms refl refl refl, of s i plays stringify t]
  unfolding Let_def by blast

theorem success_reply_defaults_witness:
  "ok reply_bare \<and> res_body reply_bare = Some (Obj [(''transcript'', Str ''hello'')])
   \<and> last (chat (step (step page_exchanging (Response 0 (Http reply_bare))) (PlaySettled 0 True))) =
        (Str ''(no response)'', ''left'')
   \<and> audioSrc (step (step page_exchanging (Response 0 (Http reply_bare))) (PlaySettled 0 True)) =
        Str fallback_mp3
   \<and> onended (step (step page_exchanging (Response 0 (Http reply_bare))) (PlaySettled 0 True))
   \<and> pendingStarts (step (step (step page_exchanging (Response 0 (Http reply_bare)))
                             (PlaySettled 0 True)) AudioEnded) = 1
   \<and> last (chat_p0 (sendToAgent_response (\<lambda>v. ''?'') (Http reply_bare) True page0_p0)) =
        (''assistant'', Str ''(no response)'')
   \<and> audioSrc_p0 (sendToAgent_response (\<lambda>v. ''?'') (Http reply_bare) True page0_p0) = Str fallback_mp3"
proof -
  have a: "ok reply_bare" "res_body reply_bare = Some (Obj [(''transcript'', Str ''hello'')])"
    "\<not> nullish (Obj [(''transcript'', Str ''hello'')])"
    by (simp_all add: reply_bare_def ok_def nullish_def)
  have p: "pendingStarts page_exchanging = 0" "length (pendingPlays page_exchanging) = 0"
    by (simp_all add: page_exchanging_def eval_defs)
  from success_reply_defaults [OF a, of page_exchanging 0 True "\<lambda>v. ''?''" page0_p0] a(1,2) p(1)
  show ?thesis
    unfolding p(2) by (simp add: Let_def js_or_def)
qed

section \<open>Turn boundary messages (C8)\<close>

lemma is_boundary_iff:
  "is_boundary p \<longleftrightarrow>
     (\<exists>kvs v. p = Obj kvs \<and> map_of kvs ''type'' = Some (Str ''turn'') \<and>
             map_of kvs ''end_of_turn'' = Some v \<and> truthy v)"
  by (cases p) (auto simp: is_boundary_def split: option.splits)

text \<open>
  C8, as the code has it. The boundary handling runs exactly when the payload parses as a
  JSON object whose \<^verbatim>\<open>type\<close> is the string \<^verbatim>\<open>turn\<close> and whose \<^verbatim>\<open>end_of_turn\<close> is truthy
  (\<^verbatim>\<open>true\<close>, and also a number other than zero, a non-empty string, an object, an array);
  it reveals the panel and appends one row. Every other message leaves the page as it
  is, and no message changes anything but the panel and its log.
\<close>

theorem boundary_handling:
  "turnSocket_onmessage m s =
     (if \<exists>kvs v. m = Some (Obj kvs) \<and> map_of kvs ''type'' = Some (Str ''turn'') \<and>
                  map_of kvs ''end_of_turn'' = Some v \<and> truthy v
      then s\<lparr>turnBoxHidden := False,
             turnLog := turnLog s @ [js_or (js_get (the m) ''transcript'') (Str ''(no transcript)'')]\<rparr>
      else s)
   \<and> (turnSocket_onmessage m s)\<lparr>turnBoxHidden := turnBoxHidden s, turnLog := turnLog s\<rparr> = s"
  by (cases m) (auto simp: turnSocket_onmessage_def is_boundary_iff show_turn_def)

text \<open>A message whose \<^verbatim>\<open>end_of_turn\<close> is the number 1, not \<^verbatim>\<open>true\<close>, is handled.\<close>

theorem boundary_truthy_counterexample:
  "js_get (Obj [(''type'', Str ''turn''), (''end_of_turn'', Num 1)]) ''end_of_turn'' \<noteq> Bool True
   \<and> turnLog (turnSocket_onmessage (Some (Obj [(''type'', Str ''turn''), (''end_of_turn'', Num 1)])) page0)
       = [Str ''(no transcript)'']
   \<and> turnLog page0 = []"
  by (simp add: turnSocket_onmessage_def is_boundary_def show_turn_def js_or_def page0_def init_def)

section \<open>The socket after close (C9)\<close>

lemma step_closed:
  "turnSocket s = Some Closed \<Longrightarrow> domLoaded s \<Longrightarrow> enabled s e \<Longrightarrow>
     turnSocket (step s e) = Some Closed \<and> domLoaded (step s e) \<and>
     connections (step s e) = connections s"
  by (cases e; simp add: loop_handlers socket_handlers Let_def split: option.splits sum.splits)

lemma run_closed:
  "turnSocket s = Some Closed \<Longrightarrow> domLoaded s \<Longrightarrow> run s es = Some s' \<Longrightarrow>
     turnSocket s' = Some Closed \<and> connections s' = connections s"
proof (induction es arbitrary: s)
  case Nil
  then show ?case by simp
next
  case (Cons e es)
  from Cons.prems have en: "enabled s e" and rest: "run (step s e) es = Some s'"
    by (auto split: if_splits)
  from step_closed [OF Cons.prems(1,2) en] Cons.IH [OF _ _ rest]
  show ?case by simp
qed

lemma step_socket_loaded:
  "turnSocket s \<noteq> None \<longrightarrow> domLoaded s \<Longrightarrow> enabled s e \<Longrightarrow>
     turnSocket (step s e) \<noteq> None \<longrightarrow> domLoaded (step s e)"
  by (cases e; auto simp: loop_handlers socket_handlers Let_def split: option.splits sum.splits)

lemma run_socket_loaded:
  "turnSocket s \<noteq> None \<longrightarrow> domLoaded s \<Longrightarrow> run s es = Some s' \<Longrightarrow>
     turnSocket s' \<noteq> None \<longrightarrow> domLoaded s'"
proof (induction es arbitrary: s)
  case Nil
  then show ?case by simp
next
  case (Cons e es)
  from Cons.prems(2) have en: "enabled s e" and rest: "run (step s e) es = Some s'"
    by (auto split: if_splits)
  show ?case
    by (rule Cons.IH [OF step_socket_loaded [OF Cons.prems(1) en] rest])
qed

text \<open>
  C9. Once the socket has closed, whatever happens afterwards on the page, no further
  connection is opened and the socket stays closed: the number of connections opened
  by the script is what it was when the close arrived.
\<close>

theorem no_reconnect_after_close:
  assumes "run (init sid c el) (pre @ WsClose # post) = Some s'"
  shows "\<exists>s0. run (init sid c el) pre = Some s0 \<and> connections s' = connections s0 \<and>
           turnSocket s' = Some Closed"
proof -
  from assms obtain s0 where pre: "run (init sid c el) pre = Some s0"
    and en: "enabled s0 WsClose" and post: "run (step s0 WsClose) post = Some s'"
    by (auto simp: run_append split: option.splits if_splits)
  have "turnSocket (init sid c el) \<noteq> None \<longrightarrow> domLoaded (init sid c el)"
    by (simp add: init_def)
  from run_socket_loaded [OF this pre] en have loaded: "domLoaded s0"
    by auto
  have closed: "turnSocket (step s0 WsClose) = Some Closed" "domLoaded (step s0 WsClose)"
    "connections (step s0 WsClose) = connections s0"
    using loaded by (simp_all add: turnSocket_onclose_def)
  from run_closed [OF closed(1,2) post] closed(3) pre show ?thesis by simp
qed

theorem no_reconnect_after_close_witness:
  "\<exists>s'. run page0 ([DOMContentLoaded True, WsOpen, WsError] @ WsClose # [Click, MicGranted]) = Some s'
      \<and> connections s' = 1 \<and> turnSocket s' = Some Closed"
proof -
  let ?I = "init ''1'' \<lparr>conciseToggle = None, webToggle = None, localStorage = Map.empty\<rparr> None"
  have "run ?I ([DOMContentLoaded True, WsOpen, WsError] @ WsClose # [Click, MicGranted]) \<noteq> None"
    by (simp add: init_def loop_handlers socket_handlers)
  then obtain s' where r:
    "run ?I ([DOMContentLoaded True, WsOpen, WsError] @ WsClose # [Click, MicGranted]) = Some s'"
    by blast
  from no_reconnect_after_close [OF r] obtain s0
    where p: "run ?I [DOMContentLoaded True, WsOpen, WsError] = Some s0"
      and c: "connections s' = connections s0" and t: "turnSocket s' = Some Closed"
    by blast
  from p have "connections s0 = 1"
    by (auto simp: init_def socket_handlers)
  with c have "connections s' = 1"
    by simp
  with r t show ?thesis
    unfolding page0_def by blast
qed

section \<open>The captured audio (C10)\<close>

lemma nonempty_fragments_simps:
  "nonempty_fragments [] = []"
  "nonempty_fragments (None # ds) = nonempty_fragments ds"
  "nonempty_fragments (Some b # ds) =
     (if blob_size b > 0 then b # nonempty_fragments ds else nonempty_fragments ds)"
  by (simp_all add: nonempty_fragments_def List.map_filter_simps)

lemma nonempty_fragments_append:
  "nonempty_fragments (xs @ ys) = nonempty_fragments xs @ nonempty_fragments ys"
  by (simp add: nonempty_fragments_def List.map_filter_def)

lemma run_fragments:
  assumes "i < length (recorders s)" "recorders s ! i = Recording \<or> recorders s ! i = Stopping"
  shows "run s (map (DataAvailable i) ds) = Some (s\<lparr>chunks := chunks s @ nonempty_fragments ds\<rparr>)"
  using assms
proof (induction ds arbitrary: s)
  case Nil
  then show ?case by (simp add: nonempty_fragments_simps)
next
  case (Cons d ds)
  have en: "enabled s (DataAvailable i d)"
    using Cons.prems by simp
  have keep: "recorders (step s (DataAvailable i d)) = recorders s"
    by (simp add: ondataavailable_def split: option.splits)
  have ch: "chunks (step s (DataAvailable i d)) @ nonempty_fragments ds =
            chunks s @ nonempty_fragments (d # ds)"
    by (cases d) (simp_all add: ondataavailable_def nonempty_fragments_simps)
  have "run (step s (DataAvailable i d)) (map (DataAvailable i) ds) =
          Some ((step s (DataAvailable i d))
                  \<lparr>chunks := chunks (step s (DataAvailable i d)) @ nonempty_fragments ds\<rparr>)"
    using Cons.prems keep by (intro Cons.IH) simp_all
  also have "\<dots> = Some (s\<lparr>chunks := chunks s @ nonempty_fragments (d # ds)\<rparr>)"
    unfolding ch by (cases d) (simp_all add: ondataavailable_def)
  finally show ?case using en by simp
qed

lemma fold_fragments_p0:
  "audioChunks (foldl (\<lambda>t d. ondataavailable_p0 d t) t ds) = audioChunks t @ nonempty_fragments ds"
proof (induction ds arbitrary: t)
  case Nil
  then show ?case by (simp add: nonempty_fragments_simps)
next
  case (Cons d ds)
  have "audioChunks (foldl (\<lambda>t d. ondataavailable_p0 d t) t (d # ds)) =
          audioChunks (ondataavailable_p0 d t) @ nonempty_fragments ds"
    by (simp only: foldl_Cons Cons.IH)
  also have "\<dots> = audioChunks t @ nonempty_fragments (d # ds)"
    by (cases d) (simp_all add: ondataavailable_p0_def nonempty_fragments_simps)
  finally show ?case .
qed

lemma bytes_nonempty_fragments:
  "concat (map bytes (nonempty_fragments ds)) = concat (map bytes (List.map_filter (\<lambda>d. d) ds))"
proof (induction ds)
  case Nil
  then show ?case by (simp add: nonempty_fragments_simps List.map_filter_simps)
next
  case (Cons d ds)
  then show ?case
    by (cases d) (simp_all add: nonempty_fragments_simps List.map_filter_simps blob_size_def)
qed

lemma capture_run:
  assumes "pendingStarts s > 0" and "i = length (recorders s)"
  shows "\<exists>s'. run s (MicGranted # map (DataAvailable i) ds1 @ Click # map (DataAvailable i) ds2 @
                    [RecorderStop i now]) = Some s'
     \<and> chunks s' = nonempty_fragments (ds1 @ ds2)
     \<and> inflight s' = inflight s @ [(''/agent/chat/'' @ sessionId s,
           onstop_form (cfg s) (Blob (nonempty_fragments (ds1 @ ds2)) ''audio/webm'') now)]"
proof -
  define s1 where "s1 = step s MicGranted"
  define s2 where "s2 = s1\<lparr>chunks := chunks s1 @ nonempty_fragments ds1\<rparr>"
  define s3 where "s3 = step s2 Click"
  define s4 where "s4 = s3\<lparr>chunks := chunks s3 @ nonempty_fragments ds2\<rparr>"
  have r1: "i < length (recorders s1)" "recorders s1 ! i = Recording" "chunks s1 = []"
    "isRecording s1" "mediaRecorder s1 = Some i"
    using assms(2) by (simp_all add: s1_def loop_handlers)
  have run1: "run s1 (map (DataAvailable i) ds1) = Some s2"
    unfolding s2_def using r1 by (intro run_fragments) simp_all
  have r3: "i < length (recorders s3)" "recorders s3 ! i = Stopping" "chunks s3 = nonempty_fragments ds1"
    using r1 by (simp_all add: s3_def s2_def loop_handlers)
  have run3: "run s3 (map (DataAvailable i) ds2) = Some s4"
    unfolding s4_def using r3 by (intro run_fragments) simp_all
  have en4: "enabled s4 (RecorderStop i now)"
    using r3 by (simp add: s4_def)
  have "run s (MicGranted # map (DataAvailable i) ds1 @ Click # map (DataAvailable i) ds2 @ [RecorderStop i now])
          = run s1 (map (DataAvailable i) ds1 @ Click # map (DataAvailable i) ds2 @ [RecorderStop i now])"
    using assms(1) unfolding s1_def by simp
  also have "\<dots> = run s2 (Click # map (DataAvailable i) ds2 @ [RecorderStop i now])"
    using run1 by (simp add: run_append)
  also have "\<dots> = run s3 (map (DataAvailable i) ds2 @ [RecorderStop i now])"
    unfolding s3_def by simp
  also have "\<dots> = run s4 [RecorderStop i now]"
    using run3 by (simp add: run_append)
  also have "\<dots> = Some (step s4 (RecorderStop i now))"
    using en4 by simp
  finally have "run s (MicGranted # map (DataAvailable i) ds1 @ Click # map (DataAvailable i) ds2 @
                  [RecorderStop i now]) = Some (step s4 (RecorderStop i now))" .
  moreover have "chunks (step s4 (RecorderStop i now)) = nonempty_fragments (ds1 @ ds2)"
    using r3 by (simp add: s4_def loop_handlers Let_def nonempty_fragments_append)
  moreover have "inflight (step s4 (RecorderStop i now)) = inflight s @ [(''/agent/chat/'' @ sessionId s,
           onstop_form (cfg s) (Blob (nonempty_fragments (ds1 @ ds2)) ''audio/webm'') now)]"
    using r3 by (simp add: s4_def s3_def s2_def s1_def loop_handlers Let_def nonempty_fragments_append)
  ultimately show ?thesis by simp
qed

text \<open>
  C10. A capture that starts when the microphone is granted, receives the fragments
  \<open>ds1\<close>, is stopped by a click, receives the last fragments \<open>ds2\<close> and then its \<^verbatim>\<open>stop\<close>
  event: the buffer holds exactly the fragments that carry data, in the order of arrival,
  and the file submitted is their concatenation (no byte of any fragment is lost, the
  dropped ones being empty). The earlier script buffers and finalizes the same way.
\<close>

theorem capture_artifact:
  assumes "pendingStarts s > 0" and "i = length (recorders s)"
  shows "(\<exists>s'. run s (MicGranted # map (DataAvailable i) ds1 @ Click # map (DataAvailable i) ds2 @
                    [RecorderStop i now]) = Some s'
           \<and> chunks s' = nonempty_fragments (ds1 @ ds2)
           \<and> inflight s' = inflight s @ [(''/agent/chat/'' @ sessionId s,
                 onstop_form (cfg s) (Blob (nonempty_fragments (ds1 @ ds2)) ''audio/webm'') now)])
       \<and> bytes (Blob (nonempty_fragments (ds1 @ ds2)) ''audio/webm'') =
           concat (map bytes (List.map_filter (\<lambda>d. d) (ds1 @ ds2)))
       \<and> recordedBlob (onstop_p0 now
            (foldl (\<lambda>t d. ondataavailable_p0 d t) (startRecording_granted_p0 t) (ds1 @ ds2))) =
           Some (Blob (nonempty_fragments (ds1 @ ds2)) ''audio/webm'')"
proof -
  have p0: "recordedBlob (onstop_p0 now
            (foldl (\<lambda>t d. ondataavailable_p0 d t) (startRecording_granted_p0 t) (ds1 @ ds2))) =
           Some (Blob (nonempty_fragments (ds1 @ ds2)) ''audio/webm'')"
    by (simp only: onstop_p0_def Let_def fold_fragments_p0)
      (simp add: sendToAgent_def setStatus_def appendMsg_def startRecording_granted_p0_def)
  have b: "bytes (Blob (nonempty_fragments (ds1 @ ds2)) ''audio/webm'') =
           concat (map bytes (List.map_filter (\<lambda>d. d) (ds1 @ ds2)))"
    by (simp add: Blob_def bytes_nonempty_fragments)
  from capture_run [OF assms, of ds1 ds2 now] p0 b show ?thesis by blast
qed

theorem capture_artifact_witness:
  "\<exists>s'. run (step page0 Click)
           (MicGranted # map (DataAvailable 0) [Some (fragment [1, 2]), Some (fragment []), None] @
            Click # map (DataAvailable 0) [Some (fragment [3])] @ [RecorderStop 0 5]) = Some s'
      \<and> chunks s' = [fragment [1, 2], fragment [3]]
      \<and> map (\<lambda>q. fd_getAll (snd q) ''file'') (inflight s') =
          [[FileField \<lparr>bytes = [1, 2, 3], mime = ''audio/webm''\<rparr> ''rec_5.webm'']]"
proof -
  have a: "pendingStarts (step page0 Click) > 0" "0 = length (recorders (step page0 Click))"
    by (simp_all add: eval_defs)
  have n: "nonempty_fragments ([Some (fragment [1, 2]), Some (fragment []), None] @ [Some (fragment [3])])
             = [fragment [1, 2], fragment [3]]"
    by (simp add: nonempty_fragments_simps fragment_def blob_size_def)
  have i: "inflight (step page0 Click) = []"
    by (simp add: eval_defs)
  from capture_artifact [OF a, of "[Some (fragment [1, 2]), Some (fragment []), None]"
      "[Some (fragment [3])]" 5 page0_p0]
  obtain s' where r: "run (step page0 Click)
           (MicGranted # map (DataAvailable 0) [Some (fragment [1, 2]), Some (fragment []), None] @
            Click # map (DataAvailable 0) [Some (fragment [3])] @ [RecorderStop 0 5]) = Some s'"
    and c: "chunks s' = [fragment [1, 2], fragment [3]]"
    and f: "inflight s' = [(''/agent/chat/'' @ sessionId (step page0 Click),
              onstop_form (cfg (step page0 Click)) (Blob [fragment [1, 2], fragment [3]] ''audio/webm'') 5)]"
    unfolding n i append_Nil by blast
  have "fd_getAll (onstop_form (cfg (step page0 Click)) (Blob [fragment [1, 2], fragment [3]] ''audio/webm'') 5) ''file''
          = [FileField \<lparr>bytes = [1, 2, 3], mime = ''audio/webm''\<rparr> ''rec_5.webm'']"
    by (simp add: getAll_form Blob_def fragment_def string_of_int_def string_of_nat.simps digit_char_def)
  with f have g: "map (\<lambda>q. fd_getAll (snd q) ''file'') (inflight s') =
          [[FileField \<lparr>bytes = [1, 2, 3], mime = ''audio/webm''\<rparr> ''rec_5.webm'']]"
    by simp
  show ?thesis
  proof (intro exI conjI)
    show "run (step page0 Click)
           (MicGranted # map (DataAvailable 0) [Some (fragment [1, 2]), Some (fragment []), None] @
            Click # map (DataAvailable 0) [Some (fragment [3])] @ [RecorderStop 0 5]) = Some s'"
      by (fact r)
    show "chunks s' = [fragment [1, 2], fragment [3]]"
      by (fact c)
    show "map (\<lambda>q. fd_getAll (snd q) ''file'') (inflight s') =
          [[FileField \<lparr>bytes = [1, 2, 3], mime = ''audio/webm''\<rparr> ''rec_5.webm'']]"
      by (fact g)
  qed
qed

end
